theory Spec2Isabelle
  imports Main "HOL-Library.Word" "HOL-Library.Multiset" "HOL-Library.Char_ord"
    "HOL-Library.List_Lexorder"
begin

section \<open>Conventions\<close>

text \<open>
  The development embeds the client-side state layer of the portfolio front end
  (TypeScript, Svelte stores): the skill badge's level label, the contact form's field
  validation, the toast queue, the API client's \<open>request\<close>, the projects store and the
  grouped skills view.

  JavaScript numbers that the code uses as identifiers, levels, HTTP status codes and
  millisecond durations are modelled as \<open>int\<close> (or \<open>nat\<close> for a status code); \<open>NaN\<close>,
  infinities and fractions are outside the model. Display texts are \<open>string\<close>s whose
  characters stand for code units below 256, so that the accented letters of the French
  labels are single characters (\<open>CHR 0xE9\<close> is e acute, \<open>CHR 0xEE\<close> is i circumflex).
  The texts the contact form validates are lists of 16-bit code units, as JavaScript
  strings are. An optional property (\<open>x?: T\<close>, possibly \<open>undefined\<close> or \<open>null\<close>) is an
  \<open>option\<close>.
\<close>

section \<open>Skill badge: level label\<close>

text \<open>
  \<^verbatim>\<open>
  function getSkillLevelDisplay(level: number): string {
      const levels = ['Debutant', 'Intermediaire', 'Confirme', 'Expert', 'Maitre'];  // accented
      return levels[level - 1] || 'Debutant';
  }
  \<close>
  Reading an array at an index that is not one of its positions gives \<open>undefined\<close>,
  which is falsy, as the empty string is.
\<close>

definition label_Debutant :: string where
  "label_Debutant = ''D'' @ [CHR 0xE9] @ ''butant''"

definition label_Intermediaire :: string where
  "label_Intermediaire = ''Interm'' @ [CHR 0xE9] @ ''diaire''"

definition label_Confirme :: string where
  "label_Confirme = ''Confirm'' @ [CHR 0xE9]"

definition label_Expert :: string where
  "label_Expert = ''Expert''"

definition label_Maitre :: string where
  "label_Maitre = ''Ma'' @ [CHR 0xEE] @ ''tre''"

definition js_index :: "'a list \<Rightarrow> int \<Rightarrow> 'a option" where
  "js_index xs i = (if 0 \<le> i \<and> i < int (length xs) then Some (xs ! nat i) else None)"

definition levels :: "string list" where
  "levels = [label_Debutant, label_Intermediaire, label_Confirme, label_Expert, label_Maitre]"

definition getSkillLevelDisplay :: "int \<Rightarrow> string" where
  "getSkillLevelDisplay level =
     (case js_index levels (level - 1) of
        None \<Rightarrow> label_Debutant
      | Some l \<Rightarrow> if l = [] then label_Debutant else l)"

section \<open>Contact form: field validation\<close>

text \<open>
  The form validates JavaScript strings, which are sequences of 16-bit code units;
  \<open>length\<close> counts code units. \<open>js\<close> writes an ASCII text as such a string.
\<close>

type_synonym jstring = "16 word list"

definition js :: "string \<Rightarrow> jstring" where
  "js s = map of_char s"

text \<open>
  The code units that \<open>String.prototype.trim\<close> strips and that \<open>\s\<close> matches: the white
  space and line terminator characters of ECMAScript.
\<close>

definition isWhiteSpace :: "16 word \<Rightarrow> bool" where
  "isWhiteSpace u \<longleftrightarrow>
     u \<in> {0x0009, 0x000A, 0x000B, 0x000C, 0x000D, 0x0020, 0x00A0, 0x1680,
          0x2028, 0x2029, 0x202F, 0x205F, 0x3000, 0xFEFF} \<or> (0x2000 \<le> u \<and> u \<le> 0x200A)"

definition trim :: "jstring \<Rightarrow> jstring" where
  "trim s = rev (dropWhile isWhiteSpace (rev (dropWhile isWhiteSpace s)))"

text \<open>
  \<^verbatim>\<open>const emailRegex = /^[^\s@]+@[^\s@]+\.[^\s@]+$/;\<close>
  The pattern is a sequence of items between the anchors \<open>^\<close> and \<open>$\<close>, each a character
  class taken once or one or more times. \<open>regex_test\<close> decides whether the whole string
  matches such a sequence, trying for a repeated class both to go on with it and to move
  to the next item, as the backtracking of \<open>RegExp.prototype.test\<close> does.
\<close>

datatype char_class = Lit "16 word" | NotSpaceNorAt

fun in_class :: "char_class \<Rightarrow> 16 word \<Rightarrow> bool" where
  "in_class (Lit c) u = (u = c)"
| "in_class NotSpaceNorAt u = (\<not> isWhiteSpace u \<and> u \<noteq> 0x40)"

datatype item = One char_class | Plus char_class

fun regex_test :: "item list \<Rightarrow> jstring \<Rightarrow> bool" where
  "regex_test [] s = (s = [])"
| "regex_test (One c # p) [] = False"
| "regex_test (One c # p) (u # s) = (in_class c u \<and> regex_test p s)"
| "regex_test (Plus c # p) [] = False"
| "regex_test (Plus c # p) (u # s) =
     (in_class c u \<and> (regex_test (Plus c # p) s \<or> regex_test p s))"

definition emailRegex :: "item list" where
  "emailRegex = [Plus NotSpaceNorAt, One (Lit 0x40), Plus NotSpaceNorAt, One (Lit 0x2E),
                 Plus NotSpaceNorAt]"

text \<open>
  \<^verbatim>\<open>
  function validateField(field: keyof ContactMessage, value: string): string | null {
      switch (field) {
          case 'name':
              if (!value.trim()) return 'Le nom est requis';
              if (value.trim().length < 2) return 'Le nom doit contenir au moins 2 caracteres';
              return null;
          case 'email':
              if (!value.trim()) return 'L\'email est requis';
              const emailRegex = /^[^\s@]+@[^\s@]+\.[^\s@]+$/;
              if (!emailRegex.test(value)) return 'Format d\'email invalide';
              return null;
          case 'subject':
              if (!value.trim()) return 'Le sujet est requis';
              if (value.trim().length < 5) return 'Le sujet doit contenir au moins 5 caracteres';
              return null;
          case 'message':
              if (!value.trim()) return 'Le message est requis';
              if (value.trim().length < 10) return 'Le message doit contenir au moins 10 caracteres';
              if (value.trim().length > 1000) return 'Le message ne peut pas depasser 1000 caracteres';
              return null;
          default:
              return null;
      }
  }
  \<close>
  The result is the error text, or \<open>None\<close> for \<open>null\<close>: the field is accepted. The four
  fields are the keys of \<open>ContactMessage\<close>, so the \<open>default\<close> branch is never taken.
\<close>

datatype field = Name | Email | Subject | Message

definition validateField :: "field \<Rightarrow> jstring \<Rightarrow> string option" where
  "validateField field v =
     (case field of
        Name \<Rightarrow>
          if trim v = [] then Some ''Le nom est requis''
          else if length (trim v) < 2
            then Some (''Le nom doit contenir au moins 2 caract'' @ [CHR 0xE8] @ ''res'')
          else None
      | Email \<Rightarrow>
          if trim v = [] then Some (''L'' @ [CHR 0x27] @ ''email est requis'')
          else if \<not> regex_test emailRegex v
            then Some (''Format d'' @ [CHR 0x27] @ ''email invalide'')
          else None
      | Subject \<Rightarrow>
          if trim v = [] then Some ''Le sujet est requis''
          else if length (trim v) < 5
            then Some (''Le sujet doit contenir au moins 5 caract'' @ [CHR 0xE8] @ ''res'')
          else None
      | Message \<Rightarrow>
          if trim v = [] then Some ''Le message est requis''
          else if length (trim v) < 10
            then Some (''Le message doit contenir au moins 10 caract'' @ [CHR 0xE8] @ ''res'')
          else if 1000 < length (trim v)
            then Some (''Le message ne peut pas d'' @ [CHR 0xE9] @ ''passer 1000 caract''
                       @ [CHR 0xE8] @ ''res'')
          else None)"

section \<open>Notification pipeline: the toast store\<close>

text \<open>
  \<open>toasts\<close> is a module-level writable store holding an array of toasts. The state of the
  pipeline is that array together with the callbacks that \<open>setTimeout\<close> has pending,
  each recorded as the delay it was given and the id it will dismiss.
\<close>

datatype toast_type = Success | Error | Warning | Info

record toast =
  t_id :: string
  t_type :: toast_type
  t_title :: string
  t_message :: "string option"
  t_duration :: int
  t_dismissible :: bool

record toast_options =
  o_type :: "toast_type option"
  o_title :: string
  o_message :: "string option"
  o_duration :: "int option"
  o_dismissible :: "bool option"

record toast_state =
  toasts :: "toast list"
  timers :: "(int \<times> string) list"

definition toasts_initial :: toast_state where
  "toasts_initial = \<lparr>toasts = [], timers = []\<rparr>"

text \<open>\<open>s.substr(start, length)\<close> for non-negative arguments.\<close>

definition substr :: "nat \<Rightarrow> nat \<Rightarrow> string \<Rightarrow> string" where
  "substr start len s = take len (drop start s)"

text \<open>\<open>n || d\<close> on an optional number: \<open>undefined\<close> and \<open>0\<close> are falsy.\<close>

definition number_or :: "int option \<Rightarrow> int \<Rightarrow> int" where
  "number_or n d = (case n of None \<Rightarrow> d | Some k \<Rightarrow> if k = 0 then d else k)"

text \<open>
  \<^verbatim>\<open>
  add(options: ToastOptions): string {
      const id = Math.random().toString(36).substr(2, 9);
      const toast: Toast = {
          id,
          type: options.type || 'info',
          title: options.title,
          message: options.message,
          duration: options.duration || 5000,
          dismissible: options.dismissible !== false
      };
      toasts.update(currentToasts => [...currentToasts, toast]);
      if (toast.duration > 0) {
          setTimeout(() => { this.dismiss(id); }, toast.duration);
      }
      return id;
  }
  \<close>
  \<open>Math.random()\<close> is an input from the host: the argument \<open>random36\<close> is the text
  \<open>Math.random().toString(36)\<close> of the number drawn by this call, for example
  \<open>''0.i''\<close> for the draw 0.5. The function returns the id (\<open>tid\<close> below, as \<open>id\<close> is
  the identity function of HOL) and the new state.
\<close>

definition toastStore_add :: "toast_options \<Rightarrow> string \<Rightarrow> toast_state \<Rightarrow> string \<times> toast_state" where
  "toastStore_add options random36 st =
     (let tid = substr 2 9 random36;
          toast = \<lparr>t_id = tid,
                   t_type = (case o_type options of None \<Rightarrow> Info | Some ty \<Rightarrow> ty),
                   t_title = o_title options,
                   t_message = o_message options,
                   t_duration = number_or (o_duration options) 5000,
                   t_dismissible = (o_dismissible options \<noteq> Some False)\<rparr>;
          st1 = st\<lparr>toasts := toasts st @ [toast]\<rparr>;
          st2 = (if 0 < t_duration toast
                 then st1\<lparr>timers := timers st1 @ [(t_duration toast, tid)]\<rparr>
                 else st1)
      in (tid, st2))"

text \<open>
  \<^verbatim>\<open>
  dismiss(id: string) {
      toasts.update(currentToasts => currentToasts.filter(toast => toast.id !== id));
  }
  clear() { toasts.set([]); }
  \<close>
  Neither has a statement that can throw, so both are plain state transformers.
\<close>

definition toastStore_dismiss :: "string \<Rightarrow> toast_state \<Rightarrow> toast_state" where
  "toastStore_dismiss tid st = st\<lparr>toasts := filter (\<lambda>toast. t_id toast \<noteq> tid) (toasts st)\<rparr>"

definition toastStore_clear :: "toast_state \<Rightarrow> toast_state" where
  "toastStore_clear st = st\<lparr>toasts := []\<rparr>"

text \<open>
  \<^verbatim>\<open>
  success(title, message?, duration?) { return this.add({ type: 'success', title, message, duration }); }
  error(title, message?, duration?)   { return this.add({ type: 'error', title, message, duration: duration || 8000 }); }
  warning(title, message?, duration?) { return this.add({ type: 'warning', title, message, duration }); }
  info(title, message?, duration?)    { return this.add({ type: 'info', title, message, duration }); }
  \<close>
\<close>

definition toastStore_success ::
  "string \<Rightarrow> string option \<Rightarrow> int option \<Rightarrow> string \<Rightarrow> toast_state \<Rightarrow> string \<times> toast_state" where
  "toastStore_success title message duration =
     toastStore_add \<lparr>o_type = Some Success, o_title = title, o_message = message,
                     o_duration = duration, o_dismissible = None\<rparr>"

definition toastStore_error ::
  "string \<Rightarrow> string option \<Rightarrow> int option \<Rightarrow> string \<Rightarrow> toast_state \<Rightarrow> string \<times> toast_state" where
  "toastStore_error title message duration =
     toastStore_add \<lparr>o_type = Some Error, o_title = title, o_message = message,
                     o_duration = Some (number_or duration 8000), o_dismissible = None\<rparr>"

definition toastStore_warning ::
  "string \<Rightarrow> string option \<Rightarrow> int option \<Rightarrow> string \<Rightarrow> toast_state \<Rightarrow> string \<times> toast_state" where
  "toastStore_warning title message duration =
     toastStore_add \<lparr>o_type = Some Warning, o_title = title, o_message = message,
                     o_duration = duration, o_dismissible = None\<rparr>"

definition toastStore_info ::
  "string \<Rightarrow> string option \<Rightarrow> int option \<Rightarrow> string \<Rightarrow> toast_state \<Rightarrow> string \<times> toast_state" where
  "toastStore_info title message duration =
     toastStore_add \<lparr>o_type = Some Info, o_title = title, o_message = message,
                     o_duration = duration, o_dismissible = None\<rparr>"

text \<open>
  A pending timer that fires runs \<open>this.dismiss(id)\<close> for the id it was set up with and
  is pending no longer. \<open>k\<close> is the position of the timer among the pending ones.
\<close>

definition timer_fires :: "nat \<Rightarrow> toast_state \<Rightarrow> toast_state" where
  "timer_fires k st =
     (if k < length (timers st)
      then toastStore_dismiss (snd (timers st ! k))
             (st\<lparr>timers := take k (timers st) @ drop (Suc k) (timers st)\<rparr>)
      else st)"

text \<open>
  A session is a sequence of uses of the store's actions and of timers firing, from the
  empty queue the module starts with. \<open>session\<close> returns the ids that the calls of
  \<open>add\<close> returned, in call order, and the state reached.
\<close>

datatype toast_event =
    Add toast_options string
  | Dismiss string
  | Clear
  | TimerFires nat

fun session :: "toast_event list \<Rightarrow> toast_state \<Rightarrow> string list \<times> toast_state" where
  "session [] st = ([], st)"
| "session (Add options random36 # evs) st =
     (case toastStore_add options random36 st of
        (tid, st1) \<Rightarrow> (case session evs st1 of (ids, st2) \<Rightarrow> (tid # ids, st2)))"
| "session (Dismiss tid # evs) st = session evs (toastStore_dismiss tid st)"
| "session (Clear # evs) st = session evs (toastStore_clear st)"
| "session (TimerFires k # evs) st = session evs (timer_fires k st)"

definition queue_ids :: "toast_state \<Rightarrow> string list" where
  "queue_ids st = map t_id (toasts st)"

text \<open>Options used to run the store on concrete inputs.\<close>

definition options_saved :: toast_options where
  "options_saved = \<lparr>o_type = None, o_title = ''Saved'', o_message = None,
                      o_duration = None, o_dismissible = None\<rparr>"

definition options_sticky :: toast_options where
  "options_sticky = \<lparr>o_type = Some Warning, o_title = ''Offline'', o_message = None,
                       o_duration = Some (- 1), o_dismissible = None\<rparr>"

section \<open>API client: \<open>request\<close>\<close>

text \<open>
  The values that \<open>response.json()\<close> produces and that \<open>request\<close> returns are JSON
  values. An object is the list of its members; a key is looked up with \<open>map_of\<close>.
\<close>

datatype json =
    JNull
  | JBool bool
  | JNum int
  | JStr string
  | JArr "json list"
  | JObj "(string \<times> json) list"

text \<open>
  What \<open>fetch\<close> gives back is an input from the network: either the promise rejects
  (no response was received), or it resolves with a response, of which the code reads
  \<open>ok\<close>, \<open>status\<close>, \<open>statusText\<close> and the result of \<open>json()\<close>. \<open>h_json\<close> is \<open>None\<close> when
  \<open>json()\<close> rejects, that is when the body is not JSON text.
\<close>

record http_response =
  h_ok :: bool
  h_status :: nat
  h_statusText :: string
  h_json :: "json option"

datatype fetch_outcome = Fetched http_response | FetchFailed

datatype js_exception = TypeError | SyntaxError | FetchRejection

fun truthy :: "json \<Rightarrow> bool" where
  "truthy JNull = False"
| "truthy (JBool b) = b"
| "truthy (JNum n) = (n \<noteq> 0)"
| "truthy (JStr s) = (s \<noteq> [])"
| "truthy (JArr xs) = True"
| "truthy (JObj kvs) = True"

text \<open>
  \<open>data.error\<close>: reading a property of \<open>null\<close> throws a \<open>TypeError\<close>; an object gives the
  member or \<open>undefined\<close> (\<open>None\<close>); booleans, numbers, strings and arrays have no property
  of that name.
\<close>

fun member_error :: "json \<Rightarrow> js_exception + json option" where
  "member_error JNull = Inl TypeError"
| "member_error (JObj kvs) = Inr (map_of kvs ''error'')"
| "member_error v = Inr None"

text \<open>The decimal text of a status code, as the template literal writes it.\<close>

definition digit_char :: "nat \<Rightarrow> char" where
  "digit_char d = ''0123456789'' ! d"

fun number_text :: "nat \<Rightarrow> string" where
  "number_text n =
     (if n < 10 then [digit_char n] else number_text (n div 10) @ [digit_char (n mod 10)])"

definition failure :: "json \<Rightarrow> json" where
  "failure e = JObj [(''success'', JBool False), (''error'', e)]"

definition http_error :: "http_response \<Rightarrow> json" where
  "http_error response =
     JObj [(''code'', JStr ''HTTP_ERROR''),
           (''message'', JStr (''HTTP '' @ number_text (h_status response) @ '': ''
                               @ h_statusText response))]"

definition network_error :: json where
  "network_error = JObj [(''code'', JStr ''NETWORK_ERROR''),
                         (''message'', JStr ''Failed to connect to server'')]"

text \<open>
  \<^verbatim>\<open>
  private async request<T>(endpoint: string, options: RequestInit = {}): Promise<ApiResponse<T>> {
      const url = `${this.baseUrl}${endpoint}`;
      try {
          const response = await fetch(url, { headers: { ... }, ...options });
          const data = await response.json();
          // Handle HTTP error status codes
          if (!response.ok) {
              return {
                  success: false,
                  error: data.error || {
                      code: 'HTTP_ERROR',
                      message: `HTTP ${response.status}: ${response.statusText}`,
                  },
              };
          }
          return data;
      } catch (error) {
          return {
              success: false,
              error: { code: 'NETWORK_ERROR', message: 'Failed to connect to server' },
          };
      }
  }
  \<close>
  \<open>request_try\<close> is the \<open>try\<close> block: \<open>Inl\<close> is an exception thrown in it, \<open>Inr\<close> the value
  it returns. \<open>request\<close> adds the \<open>catch\<close>; its result keeps the sum type, so that
  "never throws" is a statement about it. The endpoint and the options only shape the
  request that is sent.
\<close>

definition request_try :: "fetch_outcome \<Rightarrow> js_exception + json" where
  "request_try outcome =
     (case outcome of
        FetchFailed \<Rightarrow> Inl FetchRejection
      | Fetched response \<Rightarrow>
          (case h_json response of
             None \<Rightarrow> Inl SyntaxError
           | Some data \<Rightarrow>
               if \<not> h_ok response
               then (case member_error data of
                       Inl exn \<Rightarrow> Inl exn
                     | Inr e \<Rightarrow>
                         Inr (failure (case e of
                                         None \<Rightarrow> http_error response
                                       | Some err \<Rightarrow> if truthy err then err
                                                     else http_error response)))
               else Inr data))"

definition request :: "fetch_outcome \<Rightarrow> js_exception + json" where
  "request outcome =
     (case request_try outcome of
        Inr result \<Rightarrow> Inr result
      | Inl exn \<Rightarrow> Inr (failure network_error))"

text \<open>
  The result shape, as the client declares it:
  \<^verbatim>\<open>
  export interface ApiResponse<T> {
      success: boolean;
      data?: T;
      error?: { code: string; message: string; details?: string[]; };
  }
  \<close>
\<close>

fun is_JStr :: "json \<Rightarrow> bool" where
  "is_JStr (JStr s) = True"
| "is_JStr v = False"

fun is_JBool :: "json \<Rightarrow> bool" where
  "is_JBool (JBool b) = True"
| "is_JBool v = False"

fun is_string_array :: "json \<Rightarrow> bool" where
  "is_string_array (JArr xs) = list_all is_JStr xs"
| "is_string_array v = False"

definition has_member :: "(json \<Rightarrow> bool) \<Rightarrow> string \<Rightarrow> (string \<times> json) list \<Rightarrow> bool" where
  "has_member P k kvs = (case map_of kvs k of None \<Rightarrow> False | Some v \<Rightarrow> P v)"

definition optional_member :: "(json \<Rightarrow> bool) \<Rightarrow> string \<Rightarrow> (string \<times> json) list \<Rightarrow> bool" where
  "optional_member P k kvs = (case map_of kvs k of None \<Rightarrow> True | Some v \<Rightarrow> P v)"

fun is_ApiError :: "json \<Rightarrow> bool" where
  "is_ApiError (JObj kvs) =
     (has_member is_JStr ''code'' kvs \<and> has_member is_JStr ''message'' kvs \<and>
      optional_member is_string_array ''details'' kvs)"
| "is_ApiError v = False"

fun is_ApiResponse :: "json \<Rightarrow> bool" where
  "is_ApiResponse (JObj kvs) =
     (has_member is_JBool ''success'' kvs \<and> optional_member is_ApiError ''error'' kvs)"
| "is_ApiResponse v = False"

text \<open>Responses used to run the client on concrete inputs.\<close>

definition not_found_error :: json where
  "not_found_error = JObj [(''code'', JStr ''NOT_FOUND''),
                           (''message'', JStr ''Resource not found'')]"

definition response_404 :: http_response where
  "response_404 = \<lparr>h_ok = False, h_status = 404, h_statusText = ''Not Found'',
                    h_json = Some (JObj [(''success'', JBool False),
                                         (''error'', not_found_error)])\<rparr>"

definition response_500 :: http_response where
  "response_500 = \<lparr>h_ok = False, h_status = 500, h_statusText = ''Internal Server Error'',
                    h_json = Some (JObj [])\<rparr>"

definition response_502_html :: http_response where
  "response_502_html = \<lparr>h_ok = False, h_status = 502, h_statusText = ''Bad Gateway'',
                         h_json = None\<rparr>"

definition response_200_list :: http_response where
  "response_200_list = \<lparr>h_ok = True, h_status = 200, h_statusText = ''OK'',
                         h_json = Some (JObj [(''success'', JBool True), (''data'', JArr [])])\<rparr>"

definition response_200_status :: http_response where
  "response_200_status = \<lparr>h_ok = True, h_status = 200, h_statusText = ''OK'',
                           h_json = Some (JObj [(''status'', JStr ''ok'')])\<rparr>"

section \<open>Projects store\<close>

text \<open>
  The types of \<open>$lib/types\<close> and of the API client that the store uses. A response of
  the client has a \<open>success\<close> flag and optional \<open>data\<close> and \<open>error\<close> members; a call of
  the client either resolves with a response or rejects.
\<close>

record api_error =
  e_code :: string
  e_message :: string
  e_details :: "string list option"

record 'a api_response =
  r_success :: bool
  r_data :: "'a option"
  r_error :: "api_error option"

datatype 'a api_outcome = Resolved "'a api_response" | Rejected

record loading_state =
  isLoading :: bool
  error :: "api_error option"

record project =
  p_id :: int
  p_title :: string
  p_description :: string
  p_long_description :: "string option"
  p_technologies :: "string list"
  p_github_url :: "string option"
  p_demo_url :: "string option"
  p_image_url :: "string option"
  p_category :: string
  p_featured :: bool
  p_created_at :: string

text \<open>
  The module state that the store's actions read and write: the two writable stores
  \<open>projects\<close> and \<open>projectsLoading\<close> of the module, and the toast store they notify.
\<close>

record app_state =
  projects :: "project list"
  projectsLoading :: loading_state
  notifications :: toast_state

definition app_initial :: app_state where
  "app_initial = \<lparr>projects = [], projectsLoading = \<lparr>isLoading = False, error = None\<rparr>,
                    notifications = toasts_initial\<rparr>"

text \<open>\<open>response.error?.message || fallback\<close>: a missing error and an empty message are falsy.\<close>

definition error_message_or :: "api_error option \<Rightarrow> string \<Rightarrow> string" where
  "error_message_or e fallback =
     (case e of None \<Rightarrow> fallback
      | Some err \<Rightarrow> if e_message err = [] then fallback else e_message err)"

text \<open>
  \<^verbatim>\<open>
  async loadProjects(category?: string, featured?: boolean) {
      projectsLoading.update(state => ({ ...state, isLoading: true, error: null }));
      try {
          const response = await apiClient.getProjects(category, featured);
          if (response.success && response.data) {
              projects.set(response.data);
              projectsLoading.update(state => ({ ...state, isLoading: false }));
          } else {
              const errorMsg = response.error?.message || 'Erreur lors du chargement des projets';
              logApiError(response.error, 'GET /api/projects');
              projectsLoading.update(state => ({
                  ...state, isLoading: false,
                  error: response.error || { code: 'UNKNOWN_ERROR', message: errorMsg }
              }));
              toastStore.error('Erreur de chargement', errorMsg);
          }
      } catch (error) {
          const errorMsg = 'Impossible de se connecter au serveur';
          logApiError(error, 'GET /api/projects');
          projectsLoading.update(state => ({
              ...state, isLoading: false,
              error: { code: 'NETWORK_ERROR', message: errorMsg }
          }));
          toastStore.error('Erreur reseau', errorMsg);
      }
  }
  \<close>
  The call has one suspension point, the \<open>await\<close>. \<open>loadProjects_begin\<close> is the part
  before it and \<open>loadProjects_settle\<close> the part after it, given the outcome of the client
  call and the random draw that \<open>toastStore.error\<close> consumes on the failure paths.
  \<open>loadProjects\<close> runs the two with nothing in between. The filter arguments only shape
  the request and are left out; \<open>logApiError\<close> writes to the error log only, which is not
  part of this state. An array and an object are truthy, so \<open>response.data\<close> is falsy
  exactly when it is missing.
\<close>

definition loadProjects_begin :: "app_state \<Rightarrow> app_state" where
  "loadProjects_begin st =
     st\<lparr>projectsLoading := (projectsLoading st)\<lparr>isLoading := True, error := None\<rparr>\<rparr>"

definition loadProjects_settle ::
  "project list api_outcome \<Rightarrow> string \<Rightarrow> app_state \<Rightarrow> app_state" where
  "loadProjects_settle outcome random36 st =
     (case outcome of
        Resolved response \<Rightarrow>
          (case (r_success response, r_data response) of
             (True, Some data) \<Rightarrow>
               st\<lparr>projects := data,
                  projectsLoading := (projectsLoading st)\<lparr>isLoading := False\<rparr>\<rparr>
           | _ \<Rightarrow>
               (let errorMsg = error_message_or (r_error response)
                                 ''Erreur lors du chargement des projets''
                in st\<lparr>projectsLoading := (projectsLoading st)
                          \<lparr>isLoading := False,
                           error := Some (case r_error response of
                                            Some e \<Rightarrow> e
                                          | None \<Rightarrow> \<lparr>e_code = ''UNKNOWN_ERROR'',
                                                     e_message = errorMsg,
                                                     e_details = None\<rparr>)\<rparr>,
                      notifications := snd (toastStore_error ''Erreur de chargement''
                                             (Some errorMsg) None random36 (notifications st))\<rparr>))
      | Rejected \<Rightarrow>
          (let errorMsg = ''Impossible de se connecter au serveur''
           in st\<lparr>projectsLoading := (projectsLoading st)
                     \<lparr>isLoading := False,
                      error := Some \<lparr>e_code = ''NETWORK_ERROR'', e_message = errorMsg,
                                     e_details = None\<rparr>\<rparr>,
                 notifications := snd (toastStore_error (''Erreur r'' @ [CHR 0xE9] @ ''seau'')
                                        (Some errorMsg) None random36 (notifications st))\<rparr>))"

definition loadProjects ::
  "project list api_outcome \<Rightarrow> string \<Rightarrow> app_state \<Rightarrow> app_state" where
  "loadProjects outcome random36 st = loadProjects_settle outcome random36 (loadProjects_begin st)"

text \<open>
  \<^verbatim>\<open>
  async createProject(projectData: CreateProject): Promise<boolean> {
      try {
          const response = await apiClient.createProject(projectData);
          if (response.success && response.data) {
              projects.update(currentProjects => [...currentProjects, response.data!]);
              toastStore.success('Projet cree', 'Le projet a ete cree avec succes');
              return true;
          } else {
              const errorMsg = response.error?.message || 'Erreur lors de la creation du projet';
              toastStore.error('Erreur de creation', errorMsg);
              return false;
          }
      } catch (error) {
          toastStore.error('Erreur reseau', 'Impossible de creer le projet');
          return false;
      }
  }
  \<close>
  The payload only shapes the request; the function is given the outcome of the client
  call and returns the boolean together with the new state.
\<close>

definition createProject ::
  "project api_outcome \<Rightarrow> string \<Rightarrow> app_state \<Rightarrow> bool \<times> app_state" where
  "createProject outcome random36 st =
     (case outcome of
        Resolved response \<Rightarrow>
          (case (r_success response, r_data response) of
             (True, Some data) \<Rightarrow>
               (True,
                st\<lparr>projects := projects st @ [data],
                   notifications := snd (toastStore_success (''Projet cr'' @ [CHR 0xE9, CHR 0xE9])
                     (Some (''Le projet a '' @ [CHR 0xE9] @ ''t'' @ [CHR 0xE9] @ '' cr''
                            @ [CHR 0xE9, CHR 0xE9] @ '' avec succ'' @ [CHR 0xE8] @ ''s''))
                     None random36 (notifications st))\<rparr>)
           | _ \<Rightarrow>
               (let errorMsg = error_message_or (r_error response)
                                 (''Erreur lors de la cr'' @ [CHR 0xE9] @ ''ation du projet'')
                in (False,
                    st\<lparr>notifications := snd (toastStore_error
                          (''Erreur de cr'' @ [CHR 0xE9] @ ''ation'')
                          (Some errorMsg) None random36 (notifications st))\<rparr>)))
      | Rejected \<Rightarrow>
          (False,
           st\<lparr>notifications := snd (toastStore_error (''Erreur r'' @ [CHR 0xE9] @ ''seau'')
                 (Some (''Impossible de cr'' @ [CHR 0xE9] @ ''er le projet''))
                 None random36 (notifications st))\<rparr>))"

text \<open>
  \<^verbatim>\<open>
  async updateProject(id: number, projectData: UpdateProject): Promise<boolean> {
      try {
          const response = await apiClient.updateProject(id, projectData);
          if (response.success && response.data) {
              projects.update(currentProjects =>
                  currentProjects.map(project => project.id === id ? response.data! : project));
              toastStore.success('Projet mis a jour', 'Le projet a ete mis a jour avec succes');
              return true;
          } else {
              const errorMsg = response.error?.message || 'Erreur lors de la mise a jour du projet';
              toastStore.error('Erreur de mise a jour', errorMsg);
              return false;
          }
      } catch (error) {
          toastStore.error('Erreur reseau', 'Impossible de mettre a jour le projet');
          return false;
      }
  }
  \<close>
\<close>

definition updateProject ::
  "int \<Rightarrow> project api_outcome \<Rightarrow> string \<Rightarrow> app_state \<Rightarrow> bool \<times> app_state" where
  "updateProject pid outcome random36 st =
     (case outcome of
        Resolved response \<Rightarrow>
          (case (r_success response, r_data response) of
             (True, Some data) \<Rightarrow>
               (True,
                st\<lparr>projects := map (\<lambda>project. if p_id project = pid then data else project)
                                   (projects st),
                   notifications := snd (toastStore_success
                     (''Projet mis '' @ [CHR 0xE0] @ '' jour'')
                     (Some (''Le projet a '' @ [CHR 0xE9] @ ''t'' @ [CHR 0xE9] @ '' mis ''
                            @ [CHR 0xE0] @ '' jour avec succ'' @ [CHR 0xE8] @ ''s''))
                     None random36 (notifications st))\<rparr>)
           | _ \<Rightarrow>
               (let errorMsg = error_message_or (r_error response)
                                 (''Erreur lors de la mise '' @ [CHR 0xE0] @ '' jour du projet'')
                in (False,
                    st\<lparr>notifications := snd (toastStore_error
                          (''Erreur de mise '' @ [CHR 0xE0] @ '' jour'')
                          (Some errorMsg) None random36 (notifications st))\<rparr>)))
      | Rejected \<Rightarrow>
          (False,
           st\<lparr>notifications := snd (toastStore_error (''Erreur r'' @ [CHR 0xE9] @ ''seau'')
                 (Some (''Impossible de mettre '' @ [CHR 0xE0] @ '' jour le projet''))
                 None random36 (notifications st))\<rparr>))"

text \<open>Entities and responses used to run the store on concrete inputs.\<close>

definition project_sample :: "int \<Rightarrow> string \<Rightarrow> project" where
  "project_sample n t =
     \<lparr>p_id = n, p_title = t, p_description = ''A test project'', p_long_description = None,
      p_technologies = [''Rust'', ''Svelte''], p_github_url = None, p_demo_url = None,
      p_image_url = None, p_category = ''Web'', p_featured = True,
      p_created_at = ''2024-01-01T00:00:00Z''\<rparr>"

definition response_ok :: "'a \<Rightarrow> 'a api_response" where
  "response_ok d = \<lparr>r_success = True, r_data = Some d, r_error = None\<rparr>"

definition server_error :: api_error where
  "server_error = \<lparr>e_code = ''SERVER_ERROR'', e_message = ''Internal server error'',
                     e_details = None\<rparr>"

definition response_failed :: "api_error option \<Rightarrow> 'a api_response" where
  "response_failed e = \<lparr>r_success = False, r_data = None, r_error = e\<rparr>"

section \<open>Skills store: the grouped view\<close>

record skill =
  s_id :: int
  s_name :: string
  s_category :: string
  s_level :: int
  s_years_experience :: "int option"
  s_description :: "string option"

text \<open>
  \<^verbatim>\<open>
  export const skillsByCategory = derived(skills, ($skills) => {
      const grouped: Record<string, Skill[]> = {};
      $skills.forEach(skill => {
          if (!grouped[skill.category]) {
              grouped[skill.category] = [];
          }
          grouped[skill.category].push(skill);
      });
      // Sort skills within each category by level (descending) then by name
      Object.keys(grouped).forEach(category => {
          grouped[category].sort((a, b) => {
              if (a.level !== b.level) {
                  return b.level - a.level; // Higher level first
              }
              return a.name.localeCompare(b.name);
          });
      });
      return grouped;
  });
  \<close>
  \<open>grouped\<close> is an object literal, so besides the members the loop gives it, a lookup
  finds the members of \<open>Object.prototype\<close>. Those are functions (and, for \<open>__proto__\<close>,
  the prototype object): truthy values without a \<open>push\<close> method, on which the call of
  \<open>push\<close> throws a \<open>TypeError\<close>. The own members of \<open>grouped\<close> are a map from category
  labels to arrays of skills.
\<close>

definition object_prototype_keys :: "string list" where
  "object_prototype_keys =
     [''__proto__'', ''constructor'', ''hasOwnProperty'', ''isPrototypeOf'',
      ''propertyIsEnumerable'', ''toLocaleString'', ''toString'', ''valueOf'',
      ''__defineGetter__'', ''__defineSetter__'', ''__lookupGetter__'', ''__lookupSetter__'']"

fun group_by_category ::
  "skill list \<Rightarrow> (string \<rightharpoonup> skill list) \<Rightarrow> js_exception + (string \<rightharpoonup> skill list)" where
  "group_by_category [] grouped = Inr grouped"
| "group_by_category (skill # rest) grouped =
     (let category = s_category skill;
          grouped1 = (if grouped category = None \<and> category \<notin> set object_prototype_keys
                      then grouped(category \<mapsto> []) else grouped)
      in case grouped1 category of
           None \<Rightarrow> Inl TypeError
         | Some members \<Rightarrow> group_by_category rest (grouped1(category \<mapsto> members @ [skill])))"

text \<open>
  \<open>Array.prototype.sort\<close> with a comparison function is a stable sort: an element goes
  before another when the function's result is negative, and elements that compare
  equal keep their order. \<open>sort_by\<close> is the stable insertion sort; for a consistent
  comparison function every stable sort returns the same array.
\<close>

fun insert_sorted :: "('a \<Rightarrow> 'a \<Rightarrow> int) \<Rightarrow> 'a \<Rightarrow> 'a list \<Rightarrow> 'a list" where
  "insert_sorted cmp x [] = [x]"
| "insert_sorted cmp x (y # ys) =
     (if cmp x y \<le> 0 then x # y # ys else y # insert_sorted cmp x ys)"

fun sort_by :: "('a \<Rightarrow> 'a \<Rightarrow> int) \<Rightarrow> 'a list \<Rightarrow> 'a list" where
  "sort_by cmp [] = []"
| "sort_by cmp (x # xs) = insert_sorted cmp x (sort_by cmp xs)"

text \<open>
  \<open>String.prototype.localeCompare\<close> is provided by the host (its collation depends on
  the locale), so it is a parameter of the comparison function and of the view.
\<close>

definition compare_skills :: "(string \<Rightarrow> string \<Rightarrow> int) \<Rightarrow> skill \<Rightarrow> skill \<Rightarrow> int" where
  "compare_skills localeCompare a b =
     (if s_level a \<noteq> s_level b then s_level b - s_level a
      else localeCompare (s_name a) (s_name b))"

definition skillsByCategory ::
  "(string \<Rightarrow> string \<Rightarrow> int) \<Rightarrow> skill list \<Rightarrow> js_exception + (string \<rightharpoonup> skill list)" where
  "skillsByCategory localeCompare skills =
     (case group_by_category skills Map.empty of
        Inl exn \<Rightarrow> Inl exn
      | Inr grouped \<Rightarrow>
          Inr (\<lambda>category. map_option (sort_by (compare_skills localeCompare)) (grouped category)))"

text \<open>The group that the view gives for a category, if the view was computed.\<close>

definition group_of ::
  "js_exception + (string \<rightharpoonup> skill list) \<Rightarrow> string \<Rightarrow> skill list option" where
  "group_of result category =
     (case result of Inl exn \<Rightarrow> None | Inr grouped \<Rightarrow> grouped category)"

text \<open>
  A comparison function is consistent when "not after" is total and transitive.
\<close>

definition consistent_comparator :: "('a \<Rightarrow> 'a \<Rightarrow> int) \<Rightarrow> bool" where
  "consistent_comparator cmp \<longleftrightarrow>
     (\<forall>a b. cmp a b \<le> 0 \<or> cmp b a \<le> 0) \<and>
     (\<forall>a b c. cmp a b \<le> 0 \<and> cmp b c \<le> 0 \<longrightarrow> cmp a c \<le> 0)"

text \<open>
  The order of a group as the code sorts it: level descending, ties by name in the
  order of \<open>localeCompare\<close>.
\<close>

definition level_then_name :: "(string \<Rightarrow> string \<Rightarrow> int) \<Rightarrow> skill \<Rightarrow> skill \<Rightarrow> bool" where
  "level_then_name localeCompare a b \<longleftrightarrow>
     s_level b < s_level a \<or>
     (s_level a = s_level b \<and> localeCompare (s_name a) (s_name b) \<le> 0)"

text \<open>
  The order of a group in the words of the specification: level descending, ties by
  name ascending in case-sensitive lexicographic order, which is the lexicographic order
  of the code units (\<open>\<le>\<close> on strings).
\<close>

definition spec_level_then_name :: "skill \<Rightarrow> skill \<Rightarrow> bool" where
  "spec_level_then_name a b \<longleftrightarrow>
     s_level b < s_level a \<or> (s_level a = s_level b \<and> s_name a \<le> s_name b)"

text \<open>
  A collation for running the view on concrete inputs. It orders texts as the root
  collation of a host does on ASCII letters: alphabetically without regard to case
  first, and between texts that differ in case only, lower case first.
\<close>

definition fold_case :: "char \<Rightarrow> char" where
  "fold_case c =
     (case map_of (zip ''ABCDEFGHIJKLMNOPQRSTUVWXYZ'' ''abcdefghijklmnopqrstuvwxyz'') c of
        Some l \<Rightarrow> l
      | None \<Rightarrow> c)"

definition localeCompare_ascii :: "string \<Rightarrow> string \<Rightarrow> int" where
  "localeCompare_ascii a b =
     (if map fold_case a < map fold_case b then - 1
      else if map fold_case b < map fold_case a then 1
      else if a = b then 0
      else if b < a then - 1 else 1)"

definition skill_sample :: "int \<Rightarrow> string \<Rightarrow> string \<Rightarrow> int \<Rightarrow> skill" where
  "skill_sample n name category level =
     \<lparr>s_id = n, s_name = name, s_category = category, s_level = level,
      s_years_experience = None, s_description = None\<rparr>"

definition skills_sample :: "skill list" where
  "skills_sample =
     [skill_sample 1 ''Svelte'' ''Frontend'' 4, skill_sample 2 ''Rust'' ''Backend'' 5,
      skill_sample 3 ''TypeScript'' ''Frontend'' 5, skill_sample 4 ''CSS'' ''Frontend'' 4]"

section \<open>Theorems\<close>

subsection \<open>Skill badge\<close>

text \<open>
  Claim C5. The level-to-label mapping is total and clamped: the levels 1, 2, 3, 4, 5
  give the five labels in order, and every level at most 0 or above 5 gives the level-1
  label; in particular the levels 0 and 6 do.
\<close>

theorem getSkillLevelDisplay_total_clamped:
  "getSkillLevelDisplay 1 = label_Debutant \<and>
   getSkillLevelDisplay 2 = label_Intermediaire \<and>
   getSkillLevelDisplay 3 = label_Confirme \<and>
   getSkillLevelDisplay 4 = label_Expert \<and>
   getSkillLevelDisplay 5 = label_Maitre \<and>
   (\<forall>level. level \<le> 0 \<or> 5 < level \<longrightarrow> getSkillLevelDisplay level = label_Debutant)"
  by (simp add: getSkillLevelDisplay_def js_index_def levels_def label_Debutant_def
      label_Intermediaire_def label_Confirme_def label_Expert_def label_Maitre_def)

theorem getSkillLevelDisplay_total_clamped_witness:
  "getSkillLevelDisplay 0 = label_Debutant \<and> getSkillLevelDisplay 6 = label_Debutant \<and>
   getSkillLevelDisplay (- 3) = label_Debutant \<and>
   getSkillLevelDisplay 2 = ''Interm'' @ [CHR 0xE9] @ ''diaire''"
  using getSkillLevelDisplay_total_clamped by (simp add: label_Intermediaire_def)

subsection \<open>Contact form\<close>

lemma trim_replicate: "\<not> isWhiteSpace u \<Longrightarrow> trim (replicate n u) = replicate n u"
  by (simp add: trim_def)

text \<open>
  Claim C7. Field validation accepts a message whose trimmed length is exactly 10 and one
  whose trimmed length is exactly 1000, and rejects trimmed lengths 9 and 1001: a message
  is accepted exactly when its trimmed length is between 10 and 1000 inclusive. The
  email \<open>a@b.c\<close> passes the pattern check and the email \<open>a@b\<close> is rejected by it.
\<close>

theorem validateField_bounds:
  "(\<forall>v. length (trim v) = 10 \<longrightarrow> validateField Message v = None) \<and>
   (\<forall>v. length (trim v) = 1000 \<longrightarrow> validateField Message v = None) \<and>
   (\<forall>v. length (trim v) = 9 \<longrightarrow> validateField Message v \<noteq> None) \<and>
   (\<forall>v. length (trim v) = 1001 \<longrightarrow> validateField Message v \<noteq> None) \<and>
   (\<forall>v. validateField Message v = None \<longleftrightarrow> 10 \<le> length (trim v) \<and> length (trim v) \<le> 1000) \<and>
   validateField Email (js ''a@b.c'') = None \<and>
   validateField Email (js ''a@b'') = Some (''Format d'' @ [CHR 0x27] @ ''email invalide'')"
proof -
  have accepted: "validateField Email (js ''a@b.c'') = None"
    by (simp add: validateField_def js_def emailRegex_def isWhiteSpace_def trim_def)
  have rejected: "validateField Email (js ''a@b'')
      = Some (''Format d'' @ [CHR 0x27] @ ''email invalide'')"
    by (simp add: validateField_def js_def emailRegex_def isWhiteSpace_def trim_def)
  have message: "validateField Message v = None \<longleftrightarrow>
      10 \<le> length (trim v) \<and> length (trim v) \<le> 1000" for v
    by (auto simp: validateField_def)
  show ?thesis
    using accepted rejected message by simp
qed

theorem validateField_bounds_witness:
  "validateField Message (js ''0123456789'') = None \<and>
   validateField Message (js ''  123456789  '') \<noteq> None \<and>
   validateField Message (replicate 1000 0x61) = None \<and>
   validateField Message (js ''  '' @ replicate 1000 0x61 @ js '' '') = None \<and>
   validateField Message (replicate 1001 0x61) \<noteq> None"
proof -
  have a: "\<not> isWhiteSpace 0x61"
    by (simp add: isWhiteSpace_def)
  have l10: "length (trim (js ''0123456789'')) = 10"
    by (simp add: js_def trim_def isWhiteSpace_def)
  have l9: "length (trim (js ''  123456789  '')) = 9"
    by (simp add: js_def trim_def isWhiteSpace_def)
  have l1000: "length (trim (replicate 1000 0x61)) = 1000"
    using a by (simp add: trim_replicate)
  have l1000': "length (trim (js ''  '' @ replicate 1000 0x61 @ js '' '')) = 1000"
    using a by (simp add: trim_def js_def isWhiteSpace_def dropWhile_append3)
  have l1001: "length (trim (replicate 1001 0x61)) = 1001"
    using a by (simp add: trim_replicate)
  show ?thesis
    using validateField_bounds l10 l9 l1000 l1000' l1001 by blast
qed

subsection \<open>Toast store\<close>

lemma toastStore_add_id: "fst (toastStore_add options r st) = substr 2 9 r"
  by (simp add: toastStore_add_def Let_def)

lemma toastStore_add_toasts:
  "toasts (snd (toastStore_add options r st)) =
     toasts st @ [\<lparr>t_id = substr 2 9 r,
                   t_type = (case o_type options of None \<Rightarrow> Info | Some ty \<Rightarrow> ty),
                   t_title = o_title options, t_message = o_message options,
                   t_duration = number_or (o_duration options) 5000,
                   t_dismissible = (o_dismissible options \<noteq> Some False)\<rparr>]"
  by (simp add: toastStore_add_def Let_def)

lemma toastStore_add_timers:
  "timers (snd (toastStore_add options r st)) =
     (if 0 < number_or (o_duration options) 5000
      then timers st @ [(number_or (o_duration options) 5000, substr 2 9 r)]
      else timers st)"
  by (simp add: toastStore_add_def Let_def)

lemma queue_ids_add:
  "queue_ids (snd (toastStore_add options r st)) = queue_ids st @ [substr 2 9 r]"
  by (simp add: queue_ids_def toastStore_add_toasts)

lemma queue_ids_dismiss:
  "queue_ids (toastStore_dismiss tid st) = filter (\<lambda>i. i \<noteq> tid) (queue_ids st)"
  by (simp add: queue_ids_def toastStore_dismiss_def filter_map comp_def)

lemma queue_ids_clear: "queue_ids (toastStore_clear st) = []"
  by (simp add: queue_ids_def toastStore_clear_def)

lemma queue_ids_timer_fires:
  "queue_ids (timer_fires k st) =
     (if k < length (timers st)
      then filter (\<lambda>i. i \<noteq> snd (timers st ! k)) (queue_ids st)
      else queue_ids st)"
  by (simp add: timer_fires_def queue_ids_def toastStore_dismiss_def filter_map comp_def)

text \<open>
  The invariant of a session, for any starting queue: ids stay pairwise distinct as long
  as the ids that \<open>add\<close> hands out are distinct from each other and from the ids already
  queued. Dismissing, clearing and a timer firing only remove entries.
\<close>

lemma session_distinct:
  "distinct (queue_ids st) \<Longrightarrow> distinct (fst (session evs st)) \<Longrightarrow>
   set (fst (session evs st)) \<inter> set (queue_ids st) = {} \<Longrightarrow>
   distinct (queue_ids (snd (session evs st)))"
proof (induction evs st rule: session.induct)
  case (1 st)
  then show ?case by simp
next
  case (2 options random36 evs st)
  obtain st1 where a: "toastStore_add options random36 st = (substr 2 9 random36, st1)"
    using toastStore_add_id [of options random36 st]
    by (cases "toastStore_add options random36 st") simp
  obtain ids st2 where s: "session evs st1 = (ids, st2)"
    by (cases "session evs st1")
  have q: "queue_ids st1 = queue_ids st @ [substr 2 9 random36]"
    using queue_ids_add [of options random36 st] a by simp
  from "2.prems" a s
  have "distinct (queue_ids st1)" "distinct ids" "set ids \<inter> set (queue_ids st1) = {}"
    by (auto simp: q)
  with "2.IH" [OF a [symmetric]] a s show ?case
    by simp
next
  case (3 tid evs st)
  have "distinct (queue_ids (toastStore_dismiss tid st))"
    "set (queue_ids (toastStore_dismiss tid st)) \<subseteq> set (queue_ids st)"
    using "3.prems"(1) by (auto simp: queue_ids_dismiss)
  with 3 show ?case by auto
next
  case (4 evs st)
  then show ?case by (auto simp: queue_ids_clear)
next
  case (5 k evs st)
  have "distinct (queue_ids (timer_fires k st))"
    "set (queue_ids (timer_fires k st)) \<subseteq> set (queue_ids st)"
    using "5.prems"(1) by (auto simp: queue_ids_timer_fires)
  with 5 show ?case by auto
qed

lemma filter_absent_id:
  "tid \<notin> t_id ` set ts \<Longrightarrow> filter (\<lambda>toast. t_id toast \<noteq> tid) ts = ts"
  by (induction ts) auto

lemma filter_present_id:
  "distinct (map t_id ts) \<Longrightarrow> tid \<in> t_id ` set ts \<Longrightarrow>
   length (filter (\<lambda>toast. t_id toast \<noteq> tid) ts) + 1 = length ts"
  by (induction ts) (auto simp: filter_absent_id)

lemma dismiss_present:
  "distinct (queue_ids st) \<Longrightarrow> tid \<in> set (queue_ids st) \<Longrightarrow>
   length (toasts (toastStore_dismiss tid st)) + 1 = length (toasts st)"
  using filter_present_id [of "toasts st" tid]
  by (simp add: queue_ids_def toastStore_dismiss_def)

lemma dismiss_absent:
  "tid \<notin> set (queue_ids st) \<Longrightarrow> toastStore_dismiss tid st = st"
  by (simp add: toastStore_dismiss_def queue_ids_def filter_absent_id)

text \<open>
  Claim C8, as stated, fails: the id is cut from the text of a random draw, so two calls
  of \<open>add\<close> whose draws agree (here both draw 0.5, whose base-36 text is \<open>0.i\<close>) return
  the same id \<open>i\<close>; the queue then holds two toasts with that id, and \<open>dismiss\<close> of it
  removes both entries, not exactly one.
\<close>

theorem toast_ids_not_always_unique:
  "fst (session [Add options_saved ''0.i'', Add options_saved ''0.i''] toasts_initial)
     = [''i'', ''i''] \<and>
   queue_ids (snd (session [Add options_saved ''0.i'', Add options_saved ''0.i''] toasts_initial))
     = [''i'', ''i''] \<and>
   toasts (toastStore_dismiss ''i''
     (snd (session [Add options_saved ''0.i'', Add options_saved ''0.i''] toasts_initial))) = []"
  by (simp add: toastStore_add_def Let_def substr_def options_saved_def toasts_initial_def
      toastStore_dismiss_def number_or_def queue_ids_def)

text \<open>
  Claim C8, amended. \<open>add\<close> returns the (at most) nine characters that follow the first
  two of the base-36 text of its random draw. In every session from the empty queue in
  which the ids returned by the calls of \<open>add\<close> are pairwise distinct, the queue reached
  has pairwise distinct ids. \<open>dismiss(id)\<close> keeps exactly the entries whose id differs
  from \<open>id\<close> and leaves the pending timers alone; it removes exactly one entry when the
  queue's ids are distinct and \<open>id\<close> is among them, and changes nothing when \<open>id\<close> is
  absent. It is a total state transformer: no path of it throws.
\<close>

theorem toast_ids_unique_for_distinct_draws:
  "fst (toastStore_add options random36 st) = substr 2 9 random36 \<and>
   (distinct (fst (session evs toasts_initial)) \<longrightarrow>
      distinct (queue_ids (snd (session evs toasts_initial)))) \<and>
   toasts (toastStore_dismiss tid st) = filter (\<lambda>toast. t_id toast \<noteq> tid) (toasts st) \<and>
   timers (toastStore_dismiss tid st) = timers st \<and>
   (distinct (queue_ids st) \<and> tid \<in> set (queue_ids st) \<longrightarrow>
      length (toasts (toastStore_dismiss tid st)) + 1 = length (toasts st)) \<and>
   (tid \<notin> set (queue_ids st) \<longrightarrow> toastStore_dismiss tid st = st)"
proof -
  have "distinct (queue_ids (snd (session evs toasts_initial)))"
    if "distinct (fst (session evs toasts_initial))"
    using session_distinct [of toasts_initial evs] that
    by (simp add: queue_ids_def toasts_initial_def)
  then show ?thesis
    using dismiss_present [of st tid] dismiss_absent [of tid st]
    by (simp add: toastStore_add_id) (simp add: toastStore_dismiss_def)
qed

theorem toast_ids_unique_for_distinct_draws_witness:
  "fst (toastStore_add options_saved ''0.4fzyo82mvyr'' toasts_initial) = ''4fzyo82mv'' \<and>
   distinct (fst (session [Add options_saved ''0.i'', Add options_sticky ''0.4fzyo82mvyr'']
                    toasts_initial)) \<and>
   queue_ids (snd (session [Add options_saved ''0.i'', Add options_sticky ''0.4fzyo82mvyr'']
                    toasts_initial)) = [''i'', ''4fzyo82mv''] \<and>
   distinct (queue_ids (snd (session [Add options_saved ''0.i'',
                    Add options_sticky ''0.4fzyo82mvyr''] toasts_initial))) \<and>
   length (toasts (toastStore_dismiss ''i'' (snd (session [Add options_saved ''0.i'',
                    Add options_sticky ''0.4fzyo82mvyr''] toasts_initial)))) + 1 = 2 \<and>
   toastStore_dismiss ''zz'' (snd (session [Add options_saved ''0.i''] toasts_initial))
     = snd (session [Add options_saved ''0.i''] toasts_initial)"
  using toast_ids_unique_for_distinct_draws
    [of options_saved "''0.4fzyo82mvyr''" toasts_initial
        "[Add options_saved ''0.i'', Add options_sticky ''0.4fzyo82mvyr'']" "''i''"]
    toast_ids_unique_for_distinct_draws
    [of options_saved "''0.i''" "snd (session [Add options_saved ''0.i'',
        Add options_sticky ''0.4fzyo82mvyr''] toasts_initial)" "[]" "''i''"]
    toast_ids_unique_for_distinct_draws
    [of options_saved "''0.i''" "snd (session [Add options_saved ''0.i''] toasts_initial)"
        "[]" "''zz''"]
  by (simp add: toastStore_add_def Let_def substr_def options_saved_def options_sticky_def
      toasts_initial_def toastStore_dismiss_def number_or_def queue_ids_def)

text \<open>
  Claim C10, as stated, fails: a negative \<open>duration\<close> is truthy, so it is stored as
  given, and the guard \<open>toast.duration > 0\<close> then schedules nothing. The toast stays
  queued until it is dismissed by hand: a non-expiring toast made through the duration
  option.
\<close>

theorem toastStore_add_negative_duration_never_expires:
  "map t_duration (toasts (snd (toastStore_add options_sticky ''0.i'' toasts_initial))) = [- 1] \<and>
   timers (snd (toastStore_add options_sticky ''0.i'' toasts_initial)) = []"
  by (simp add: toastStore_add_def Let_def options_sticky_def toasts_initial_def number_or_def)

text \<open>
  Claim C10, amended. For every call of \<open>add\<close> whose \<open>options.duration\<close> is absent or 0,
  the toast appended to the queue has the default duration 5000 and its removal after
  5000 ms is scheduled: an explicit 0 is treated exactly as an omitted duration. A
  positive duration is stored as given and the removal is scheduled after it. A negative
  duration is stored as given and no removal is scheduled.
\<close>

theorem toastStore_add_duration_default:
  "butlast (toasts (snd (toastStore_add options random36 st))) = toasts st \<and>
   t_id (last (toasts (snd (toastStore_add options random36 st))))
     = fst (toastStore_add options random36 st) \<and>
   (o_duration options = None \<or> o_duration options = Some 0 \<longrightarrow>
      t_duration (last (toasts (snd (toastStore_add options random36 st)))) = 5000 \<and>
      timers (snd (toastStore_add options random36 st))
        = timers st @ [(5000, fst (toastStore_add options random36 st))]) \<and>
   (\<forall>n. o_duration options = Some n \<and> 0 < n \<longrightarrow>
      t_duration (last (toasts (snd (toastStore_add options random36 st)))) = n \<and>
      timers (snd (toastStore_add options random36 st))
        = timers st @ [(n, fst (toastStore_add options random36 st))]) \<and>
   (\<forall>n. o_duration options = Some n \<and> n < 0 \<longrightarrow>
      t_duration (last (toasts (snd (toastStore_add options random36 st)))) = n \<and>
      timers (snd (toastStore_add options random36 st)) = timers st)"
  by (auto simp: toastStore_add_toasts toastStore_add_timers toastStore_add_id number_or_def)

theorem toastStore_add_duration_default_witness:
  "t_duration (last (toasts (snd (toastStore_add options_saved ''0.i'' toasts_initial)))) = 5000 \<and>
   timers (snd (toastStore_add options_saved ''0.i'' toasts_initial)) = [(5000, ''i'')] \<and>
   t_duration (last (toasts (snd (toastStore_add (options_saved\<lparr>o_duration := Some 0\<rparr>)
      ''0.i'' toasts_initial)))) = 5000 \<and>
   timers (snd (toastStore_add (options_saved\<lparr>o_duration := Some 0\<rparr>) ''0.i'' toasts_initial))
     = [(5000, ''i'')] \<and>
   timers (snd (toastStore_add (options_saved\<lparr>o_duration := Some 250\<rparr>) ''0.i'' toasts_initial))
     = [(250, ''i'')] \<and>
   timers (snd (toastStore_add options_sticky ''0.i'' toasts_initial)) = []"
  using toastStore_add_duration_default [of options_saved "''0.i''" toasts_initial]
    toastStore_add_duration_default [of "options_saved\<lparr>o_duration := Some 0\<rparr>" "''0.i''" toasts_initial]
    toastStore_add_duration_default [of "options_saved\<lparr>o_duration := Some 250\<rparr>" "''0.i''" toasts_initial]
    toastStore_add_duration_default [of options_sticky "''0.i''" toasts_initial]
  by (simp add: toastStore_add_id substr_def options_saved_def options_sticky_def
      toasts_initial_def)

subsection \<open>API client\<close>

lemma member_error_falsy:
  assumes "data \<noteq> JNull"
    and "\<forall>kvs err. data = JObj kvs \<and> map_of kvs ''error'' = Some err \<longrightarrow> \<not> truthy err"
  shows "member_error data = Inr None \<or> (\<exists>err. member_error data = Inr (Some err) \<and> \<not> truthy err)"
  using assms by (cases data) auto

text \<open>
  Claim C3, as stated, fails at two kinds of input. A response with a 2xx status is
  returned as its body was parsed, whatever the body is: the body \<open>{"status": "ok"}\<close>
  comes back as it is, and it is not of the result shape (it has no \<open>success\<close> member).
  And a response with status 502 whose body is not JSON text makes \<open>response.json()\<close>
  reject inside the \<open>try\<close> block, so that the result carries the code \<open>NETWORK_ERROR\<close>,
  not \<open>HTTP_ERROR\<close>, although a response was received and it has no structured error
  body.
\<close>

theorem request_not_always_normalized:
  "request (Fetched response_200_status) = Inr (JObj [(''status'', JStr ''ok'')]) \<and>
   \<not> is_ApiResponse (JObj [(''status'', JStr ''ok'')]) \<and>
   request (Fetched response_502_html) = Inr (failure network_error)"
  by (simp add: request_def request_try_def has_member_def response_200_status_def
      response_502_html_def)

text \<open>
  Claim C3, amended. \<open>request\<close> never throws to its caller: for every outcome of \<open>fetch\<close>
  it returns a value. When \<open>fetch\<close> rejects (transport failure), the value is the failure
  shape with code \<open>NETWORK_ERROR\<close>. For a non-2xx response whose body parses to a JSON
  object with a truthy \<open>error\<close> member, the value is the failure shape with that member
  passed through unchanged; for a non-2xx response whose body parses to a JSON value
  other than \<open>null\<close> without a truthy \<open>error\<close> member, it is the failure shape with code
  \<open>HTTP_ERROR\<close> and the message \<open>HTTP <status>: <statusText>\<close>. For a 2xx response whose
  body parses, the value is the parsed body, unchanged and unchecked. The two failure
  values that the client builds itself are of the result shape.
\<close>

theorem request_never_throws:
  "(\<exists>result. request outcome = Inr result) \<and>
   (outcome = FetchFailed \<longrightarrow> request outcome = Inr (failure network_error)) \<and>
   (\<forall>response kvs err. outcome = Fetched response \<and> \<not> h_ok response \<and>
        h_json response = Some (JObj kvs) \<and> map_of kvs ''error'' = Some err \<and> truthy err \<longrightarrow>
      request outcome = Inr (failure err)) \<and>
   (\<forall>response data. outcome = Fetched response \<and> \<not> h_ok response \<and>
        h_json response = Some data \<and> data \<noteq> JNull \<and>
        (\<forall>kvs err. data = JObj kvs \<and> map_of kvs ''error'' = Some err \<longrightarrow> \<not> truthy err) \<longrightarrow>
      request outcome = Inr (failure (http_error response))) \<and>
   (\<forall>response data. outcome = Fetched response \<and> h_ok response \<and> h_json response = Some data \<longrightarrow>
      request outcome = Inr data) \<and>
   is_ApiResponse (failure network_error) \<and>
   (\<forall>response. is_ApiResponse (failure (http_error response)))"
proof -
  have total: "\<exists>result. request outcome = Inr result"
    by (simp add: request_def split: sum.splits)
  have rejected: "outcome = FetchFailed \<longrightarrow> request outcome = Inr (failure network_error)"
    by (simp add: request_def request_try_def)
  have passed: "request outcome = Inr (failure err)"
    if "outcome = Fetched response" "\<not> h_ok response" "h_json response = Some (JObj kvs)"
      "map_of kvs ''error'' = Some err" "truthy err" for response kvs err
    using that by (simp add: request_def request_try_def)
  have http: "request outcome = Inr (failure (http_error response))"
    if "outcome = Fetched response" "\<not> h_ok response" "h_json response = Some data"
      "data \<noteq> JNull"
      "\<forall>kvs err. data = JObj kvs \<and> map_of kvs ''error'' = Some err \<longrightarrow> \<not> truthy err"
    for response data
    using that(1-3) member_error_falsy [OF that(4,5)]
    by (auto simp: request_def request_try_def)
  have ok: "request outcome = Inr data"
    if "outcome = Fetched response" "h_ok response" "h_json response = Some data"
    for response data
    using that by (simp add: request_def request_try_def)
  have shapes: "is_ApiResponse (failure network_error)"
    "is_ApiResponse (failure (http_error response))" for response
    by (simp_all add: failure_def network_error_def http_error_def has_member_def
        optional_member_def)
  from total rejected passed http ok shapes show ?thesis
    by blast
qed

theorem request_never_throws_witness:
  "request FetchFailed = Inr (failure network_error) \<and>
   request (Fetched response_404) = Inr (failure not_found_error) \<and>
   request (Fetched response_500)
     = Inr (failure (JObj [(''code'', JStr ''HTTP_ERROR''),
                           (''message'', JStr ''HTTP 500: Internal Server Error'')])) \<and>
   request (Fetched response_200_list)
     = Inr (JObj [(''success'', JBool True), (''data'', JArr [])])"
  using request_never_throws [of FetchFailed]
    request_never_throws [of "Fetched response_404"]
    request_never_throws [of "Fetched response_500"]
    request_never_throws [of "Fetched response_200_list"]
  by (simp add: http_error_def digit_char_def response_404_def response_500_def
      response_200_list_def not_found_error_def)

subsection \<open>Projects store\<close>

lemma map_replace_absent:
  "pid \<notin> p_id ` set ps \<Longrightarrow>
   map (\<lambda>project. if p_id project = pid then entity else project) ps = ps"
  by (induction ps) auto

text \<open>
  Claim C1. For every failed \<open>loadProjects()\<close> call, that is one whose client call
  resolves with \<open>success = false\<close> or rejects, the projects collection is what it was
  before the call, the loading state's \<open>error\<close> is non-null and equals the error object
  of the response when the response has one, \<open>isLoading\<close> is false once the call has
  settled, and the toast queue has grown by exactly one toast, of type error. The
  collection, the error and the flag are so also when other actions have run during the
  \<open>await\<close>: the part of the call after it leaves the collection of any state alone.
\<close>

theorem loadProjects_failure:
  assumes "outcome = Rejected \<or> (\<exists>response. outcome = Resolved response \<and> \<not> r_success response)"
  shows "projects (loadProjects outcome random36 st) = projects st \<and>
    error (projectsLoading (loadProjects outcome random36 st)) \<noteq> None \<and>
    (\<forall>response e. outcome = Resolved response \<and> r_error response = Some e \<longrightarrow>
       error (projectsLoading (loadProjects outcome random36 st)) = Some e) \<and>
    \<not> isLoading (projectsLoading (loadProjects outcome random36 st)) \<and>
    (\<exists>toast. toasts (notifications (loadProjects outcome random36 st))
        = toasts (notifications st) @ [toast] \<and> t_type toast = Error) \<and>
    (\<forall>mid. projects (loadProjects_settle outcome random36 mid) = projects mid \<and>
       error (projectsLoading (loadProjects_settle outcome random36 mid)) \<noteq> None \<and>
       \<not> isLoading (projectsLoading (loadProjects_settle outcome random36 mid)))"
  using assms
  by (auto simp: loadProjects_def loadProjects_settle_def loadProjects_begin_def Let_def
      toastStore_error_def toastStore_add_toasts
      split: api_outcome.splits option.splits bool.splits)

theorem loadProjects_failure_witness:
  "projects (loadProjects (Resolved (response_failed (Some server_error))) ''0.i''
      (app_initial\<lparr>projects := [project_sample 1 ''Kept'']\<rparr>)) = [project_sample 1 ''Kept''] \<and>
   error (projectsLoading (loadProjects (Resolved (response_failed (Some server_error))) ''0.i''
      (app_initial\<lparr>projects := [project_sample 1 ''Kept'']\<rparr>))) = Some server_error \<and>
   \<not> isLoading (projectsLoading (loadProjects (Resolved (response_failed (Some server_error)))
      ''0.i'' (app_initial\<lparr>projects := [project_sample 1 ''Kept'']\<rparr>))) \<and>
   map t_type (toasts (notifications (loadProjects (Resolved (response_failed (Some server_error)))
      ''0.i'' (app_initial\<lparr>projects := [project_sample 1 ''Kept'']\<rparr>)))) = [Error] \<and>
   projects (loadProjects Rejected ''0.i''
      (app_initial\<lparr>projects := [project_sample 1 ''Kept'']\<rparr>)) = [project_sample 1 ''Kept''] \<and>
   map_option e_code (error (projectsLoading (loadProjects Rejected ''0.i'' app_initial)))
      = Some ''NETWORK_ERROR''"
proof -
  have failed: "Resolved (response_failed (Some server_error)) = Rejected \<or>
      (\<exists>response. Resolved (response_failed (Some server_error)) = Resolved response \<and>
         \<not> r_success (response :: project list api_response))"
    by (simp add: response_failed_def)
  have rejected: "(Rejected :: project list api_outcome) = Rejected \<or>
      (\<exists>response. Rejected = Resolved response \<and> \<not> r_success (response :: project list api_response))"
    by simp
  show ?thesis
    using loadProjects_failure [OF failed, of "''0.i''"
        "app_initial\<lparr>projects := [project_sample 1 ''Kept'']\<rparr>"]
      loadProjects_failure [OF rejected, of "''0.i''"
        "app_initial\<lparr>projects := [project_sample 1 ''Kept'']\<rparr>"]
    by (simp add: loadProjects_def loadProjects_settle_def loadProjects_begin_def Let_def
        response_failed_def app_initial_def toasts_initial_def toastStore_error_def
        toastStore_add_toasts)
qed

text \<open>
  Claim C2. For every successful \<open>loadProjects()\<close> call, that is one whose client call
  resolves with \<open>success = true\<close> and a collection as \<open>data\<close>, the store's collection
  afterwards is exactly that collection, whatever it held before, and \<open>isLoading\<close> is
  false. The error stays cleared and no toast is queued. The collection is replaced
  also when other actions have changed it during the \<open>await\<close>.
\<close>

theorem loadProjects_success:
  assumes "outcome = Resolved response" "r_success response" "r_data response = Some data"
  shows "projects (loadProjects outcome random36 st) = data \<and>
    \<not> isLoading (projectsLoading (loadProjects outcome random36 st)) \<and>
    error (projectsLoading (loadProjects outcome random36 st)) = None \<and>
    notifications (loadProjects outcome random36 st) = notifications st \<and>
    (\<forall>mid. projects (loadProjects_settle outcome random36 mid) = data \<and>
       \<not> isLoading (projectsLoading (loadProjects_settle outcome random36 mid)))"
  using assms
  by (simp add: loadProjects_def loadProjects_settle_def loadProjects_begin_def)

theorem loadProjects_success_witness:
  "projects (loadProjects (Resolved (response_ok [project_sample 1 ''A'', project_sample 2 ''B'']))
      ''0.i'' (app_initial\<lparr>projects := [project_sample 9 ''Old'']\<rparr>))
     = [project_sample 1 ''A'', project_sample 2 ''B''] \<and>
   \<not> isLoading (projectsLoading (loadProjects
      (Resolved (response_ok [project_sample 1 ''A'', project_sample 2 ''B'']))
      ''0.i'' (app_initial\<lparr>projects := [project_sample 9 ''Old'']\<rparr>))) \<and>
   projects (loadProjects (Resolved (response_ok [])) ''0.i''
      (app_initial\<lparr>projects := [project_sample 9 ''Old'']\<rparr>)) = []"
  using loadProjects_success [of "Resolved (response_ok [project_sample 1 ''A'', project_sample 2 ''B''])"
      "response_ok [project_sample 1 ''A'', project_sample 2 ''B'']"
      "[project_sample 1 ''A'', project_sample 2 ''B'']" "''0.i''"
      "app_initial\<lparr>projects := [project_sample 9 ''Old'']\<rparr>"]
    loadProjects_success [of "Resolved (response_ok [])" "response_ok []" "[]" "''0.i''"
      "app_initial\<lparr>projects := [project_sample 9 ''Old'']\<rparr>"]
  by (simp add: response_ok_def)

text \<open>
  Claim C4, as stated, fails: \<open>createProject\<close> appends the returned entity without
  looking at the collection, so when the collection already holds an entry with the
  returned identifier (here a project with id 5, as after a \<open>loadProjects()\<close> that
  resolved while the creation was in flight), the entity is in the collection twice.
\<close>

theorem createProject_can_duplicate:
  "map p_id (projects (snd (createProject (Resolved (response_ok (project_sample 5 ''X''))) ''0.i''
      (app_initial\<lparr>projects := [project_sample 5 ''X'']\<rparr>)))) = [5, 5] \<and>
   count_list (projects (snd (createProject (Resolved (response_ok (project_sample 5 ''X''))) ''0.i''
      (app_initial\<lparr>projects := [project_sample 5 ''X'']\<rparr>)))) (project_sample 5 ''X'') = 2"
  by (simp add: createProject_def response_ok_def app_initial_def project_sample_def)

text \<open>
  Claim C4, amended. For every successful \<open>createProject()\<close> call, the collection
  afterwards is the prior collection, in its order, followed by the returned entity; the
  entity therefore occurs once more than it did before, which is exactly once when no
  prior entry equals it. \<open>createProject\<close> returns true and the toast queue grows by
  exactly one toast, of type success. For every failed call (the client call rejects or
  resolves with \<open>success = false\<close>) the collection and the loading state are unchanged
  and \<open>createProject\<close> returns false.
\<close>

theorem createProject_appends:
  "(outcome = Resolved response \<and> r_success response \<and> r_data response = Some entity \<longrightarrow>
      fst (createProject outcome random36 st) = True \<and>
      projects (snd (createProject outcome random36 st)) = projects st @ [entity] \<and>
      count_list (projects (snd (createProject outcome random36 st))) entity
        = count_list (projects st) entity + 1 \<and>
      (\<exists>toast. toasts (notifications (snd (createProject outcome random36 st)))
          = toasts (notifications st) @ [toast] \<and> t_type toast = Success)) \<and>
   (outcome = Rejected \<or> (\<exists>response. outcome = Resolved response \<and> \<not> r_success response) \<longrightarrow>
      fst (createProject outcome random36 st) = False \<and>
      projects (snd (createProject outcome random36 st)) = projects st \<and>
      projectsLoading (snd (createProject outcome random36 st)) = projectsLoading st)"
  by (auto simp: createProject_def Let_def toastStore_success_def toastStore_add_toasts
      split: api_outcome.splits option.splits bool.splits)

theorem createProject_appends_witness:
  "fst (createProject (Resolved (response_ok (project_sample 5 ''X''))) ''0.i''
      (app_initial\<lparr>projects := [project_sample 1 ''A'', project_sample 2 ''B'']\<rparr>)) = True \<and>
   projects (snd (createProject (Resolved (response_ok (project_sample 5 ''X''))) ''0.i''
      (app_initial\<lparr>projects := [project_sample 1 ''A'', project_sample 2 ''B'']\<rparr>)))
     = [project_sample 1 ''A'', project_sample 2 ''B'', project_sample 5 ''X''] \<and>
   map t_type (toasts (notifications (snd (createProject
      (Resolved (response_ok (project_sample 5 ''X''))) ''0.i''
      (app_initial\<lparr>projects := [project_sample 1 ''A'', project_sample 2 ''B'']\<rparr>)))))
     = [Success] \<and>
   fst (createProject (Resolved (response_failed (Some server_error))) ''0.i''
      (app_initial\<lparr>projects := [project_sample 1 ''A'']\<rparr>)) = False \<and>
   projects (snd (createProject (Resolved (response_failed (Some server_error))) ''0.i''
      (app_initial\<lparr>projects := [project_sample 1 ''A'']\<rparr>))) = [project_sample 1 ''A''] \<and>
   fst (createProject Rejected ''0.i'' (app_initial\<lparr>projects := [project_sample 1 ''A'']\<rparr>))
     = False"
  using createProject_appends [of "Resolved (response_ok (project_sample 5 ''X''))"
      "response_ok (project_sample 5 ''X'')" "project_sample 5 ''X''" "''0.i''"
      "app_initial\<lparr>projects := [project_sample 1 ''A'', project_sample 2 ''B'']\<rparr>"]
    createProject_appends [of "Resolved (response_failed (Some server_error))"
      "response_failed (Some server_error)" "project_sample 5 ''X''" "''0.i''"
      "app_initial\<lparr>projects := [project_sample 1 ''A'']\<rparr>"]
    createProject_appends [of Rejected "response_failed None" "project_sample 5 ''X''" "''0.i''"
      "app_initial\<lparr>projects := [project_sample 1 ''A'']\<rparr>"]
  by (simp add: createProject_def response_ok_def response_failed_def app_initial_def
      toasts_initial_def toastStore_success_def toastStore_add_toasts)

text \<open>
  Claim C9. For every \<open>updateProject(id, payload)\<close> call that succeeds, the collection
  keeps its length, every position holding an entity whose identifier equals \<open>id\<close> holds
  the server-returned entity afterwards, and every other position holds what it held
  before; if no entity of the collection has that identifier, the collection is left
  entirely unchanged.
\<close>

theorem updateProject_replaces_in_place:
  assumes "outcome = Resolved response" "r_success response" "r_data response = Some entity"
  shows "length (projects (snd (updateProject pid outcome random36 st))) = length (projects st) \<and>
    (\<forall>k < length (projects st).
       projects (snd (updateProject pid outcome random36 st)) ! k
         = (if p_id (projects st ! k) = pid then entity else projects st ! k)) \<and>
    (pid \<notin> p_id ` set (projects st) \<longrightarrow>
       projects (snd (updateProject pid outcome random36 st)) = projects st)"
  using assms
  by (auto simp: updateProject_def map_replace_absent)

theorem updateProject_replaces_in_place_witness:
  "projects (snd (updateProject 2 (Resolved (response_ok (project_sample 2 ''New''))) ''0.i''
      (app_initial\<lparr>projects := [project_sample 1 ''A'', project_sample 2 ''B'',
                                   project_sample 3 ''C'']\<rparr>)))
     = [project_sample 1 ''A'', project_sample 2 ''New'', project_sample 3 ''C''] \<and>
   projects (snd (updateProject 7 (Resolved (response_ok (project_sample 7 ''New''))) ''0.i''
      (app_initial\<lparr>projects := [project_sample 1 ''A'', project_sample 2 ''B'']\<rparr>)))
     = [project_sample 1 ''A'', project_sample 2 ''B'']"
proof -
  have absent: "(7::int) \<notin> p_id ` set (projects
      (app_initial\<lparr>projects := [project_sample 1 ''A'', project_sample 2 ''B'']\<rparr>))"
    by (simp add: project_sample_def)
  have present: "projects (snd (updateProject 2 (Resolved (response_ok (project_sample 2 ''New'')))
      ''0.i'' (app_initial\<lparr>projects := [project_sample 1 ''A'', project_sample 2 ''B'',
                                   project_sample 3 ''C'']\<rparr>)))
     = [project_sample 1 ''A'', project_sample 2 ''New'', project_sample 3 ''C'']"
    by (simp add: updateProject_def response_ok_def project_sample_def)
  show ?thesis
    using updateProject_replaces_in_place [of "Resolved (response_ok (project_sample 7 ''New''))"
        "response_ok (project_sample 7 ''New'')" "project_sample 7 ''New''" 7 "''0.i''"
        "app_initial\<lparr>projects := [project_sample 1 ''A'', project_sample 2 ''B'']\<rparr>"]
      absent present
    by (simp add: response_ok_def)
qed

subsection \<open>Skills store\<close>

lemma set_insert_sorted: "set (insert_sorted cmp x ys) = insert x (set ys)"
  by (induction ys) auto

lemma mset_insert_sorted: "mset (insert_sorted cmp x ys) = add_mset x (mset ys)"
  by (induction ys) auto

lemma mset_sort_by: "mset (sort_by cmp xs) = mset xs"
  by (induction xs) (auto simp: mset_insert_sorted)

lemma sorted_insert_sorted:
  assumes "consistent_comparator cmp" "sorted_wrt (\<lambda>a b. cmp a b \<le> 0) ys"
  shows "sorted_wrt (\<lambda>a b. cmp a b \<le> 0) (insert_sorted cmp x ys)"
  using assms(2)
proof (induction ys)
  case Nil
  then show ?case by simp
next
  case (Cons y ys)
  show ?case
  proof (cases "cmp x y \<le> 0")
    case True
    have "cmp x z \<le> 0" if "z \<in> set ys" for z
      using that True Cons.prems assms(1) unfolding consistent_comparator_def
      by (metis sorted_wrt.simps(2))
    with True Cons.prems show ?thesis by simp
  next
    case False
    have "cmp y x \<le> 0"
      using False assms(1) unfolding consistent_comparator_def by blast
    with False Cons show ?thesis
      by (auto simp: set_insert_sorted)
  qed
qed

lemma sorted_sort_by:
  "consistent_comparator cmp \<Longrightarrow> sorted_wrt (\<lambda>a b. cmp a b \<le> 0) (sort_by cmp xs)"
  by (induction xs) (auto simp: sorted_insert_sorted)

lemma compare_skills_order:
  "compare_skills lc a b \<le> 0 \<longleftrightarrow> level_then_name lc a b"
  by (auto simp: compare_skills_def level_then_name_def)

lemma consistent_compare_skills:
  assumes "consistent_comparator lc"
  shows "consistent_comparator (compare_skills lc)"
proof -
  have total: "lc x y \<le> 0 \<or> lc y x \<le> 0" for x y
    using assms unfolding consistent_comparator_def by blast
  have trans: "lc x y \<le> 0 \<Longrightarrow> lc y z \<le> 0 \<Longrightarrow> lc x z \<le> 0" for x y z
    using assms unfolding consistent_comparator_def by blast
  have t1: "level_then_name lc a b \<or> level_then_name lc b a" for a b
    using total [of "s_name a" "s_name b"] by (auto simp: level_then_name_def)
  have t2: "level_then_name lc a c"
    if "level_then_name lc a b" "level_then_name lc b c" for a b c
    using that trans [of "s_name a" "s_name b" "s_name c"]
    by (auto simp: level_then_name_def)
  show ?thesis
    unfolding consistent_comparator_def compare_skills_order using t1 t2 by blast
qed

text \<open>
  The grouping loop, from any map of groups it has built so far: each category gets the
  skills bearing it appended in source order.
\<close>

lemma group_by_category_filter:
  assumes "\<forall>s \<in> set skills. s_category s \<notin> set object_prototype_keys"
  shows "group_by_category skills grouped =
     Inr (\<lambda>c. case grouped c of
                 None \<Rightarrow> (if filter (\<lambda>s. s_category s = c) skills = [] then None
                           else Some (filter (\<lambda>s. s_category s = c) skills))
               | Some members \<Rightarrow> Some (members @ filter (\<lambda>s. s_category s = c) skills))"
  using assms
proof (induction skills arbitrary: grouped)
  case Nil
  then show ?case by (auto split: option.splits)
next
  case (Cons skill rest)
  then show ?case
    by (auto simp: Let_def fun_eq_iff split: option.splits)
qed

lemma consistent_localeCompare_ascii: "consistent_comparator localeCompare_ascii"
  unfolding consistent_comparator_def localeCompare_ascii_def
  by (auto split: if_splits)

text \<open>
  Claim C6, as stated, fails. Ties are broken with \<open>localeCompare\<close>, the host's
  collation, not by the code units: two skills of one category and one level named \<open>B\<close>
  and \<open>a\<close> come out as \<open>a\<close>, \<open>B\<close>, while in case-sensitive lexicographic order \<open>B\<close>
  precedes \<open>a\<close>. And a category label that is the name of a member of
  \<open>Object.prototype\<close>, such as \<open>constructor\<close>, makes the view throw instead of mapping
  the label to its skills.
\<close>

theorem skillsByCategory_not_case_sensitive:
  "group_of (skillsByCategory localeCompare_ascii
      [skill_sample 1 ''B'' ''Tools'' 3, skill_sample 2 ''a'' ''Tools'' 3]) ''Tools''
     = Some [skill_sample 2 ''a'' ''Tools'' 3, skill_sample 1 ''B'' ''Tools'' 3] \<and>
   \<not> sorted_wrt spec_level_then_name
        [skill_sample 2 ''a'' ''Tools'' 3, skill_sample 1 ''B'' ''Tools'' 3] \<and>
   skillsByCategory localeCompare_ascii [skill_sample 1 ''Git'' ''constructor'' 3]
     = Inl TypeError"
  by (simp add: group_of_def skillsByCategory_def skill_sample_def Let_def
      object_prototype_keys_def compare_skills_def localeCompare_ascii_def fold_case_def
      spec_level_then_name_def)

text \<open>
  Claim C6, amended. For every skills collection none of whose category labels is the
  name of a member of \<open>Object.prototype\<close>, and a consistent \<open>localeCompare\<close>, the view is
  computed and maps each category label of the collection to exactly the skills bearing
  that label (each as often as the collection has it) and no other label to anything;
  each group is the stable sort of those skills in source order, so it is sorted by level
  descending with ties broken by name ascending in the order of \<open>localeCompare\<close>.
\<close>

theorem skillsByCategory_grouped_sorted:
  assumes "consistent_comparator localeCompare"
    and "\<forall>s \<in> set skills. s_category s \<notin> set object_prototype_keys"
  shows "\<exists>grouped. skillsByCategory localeCompare skills = Inr grouped \<and>
    (\<forall>category. category \<notin> s_category ` set skills \<longrightarrow> grouped category = None) \<and>
    (\<forall>category \<in> s_category ` set skills. \<exists>members.
       grouped category = Some members \<and>
       members = sort_by (compare_skills localeCompare)
                   (filter (\<lambda>s. s_category s = category) skills) \<and>
       mset members = mset (filter (\<lambda>s. s_category s = category) skills) \<and>
       sorted_wrt (level_then_name localeCompare) members)"
proof -
  let ?bearing = "\<lambda>c. filter (\<lambda>s. s_category s = c) skills"
  let ?grouped = "\<lambda>c. map_option (sort_by (compare_skills localeCompare))
                        (if ?bearing c = [] then None else Some (?bearing c))"
  have view: "skillsByCategory localeCompare skills = Inr ?grouped"
    using group_by_category_filter [OF assms(2), of Map.empty]
    by (simp add: skillsByCategory_def)
  have absent: "?grouped c = None" if "c \<notin> s_category ` set skills" for c
  proof -
    have "?bearing c = []"
      using that by (auto simp: filter_empty_conv)
    then show ?thesis by simp
  qed
  have present: "?grouped c = Some (sort_by (compare_skills localeCompare) (?bearing c))"
    if "c \<in> s_category ` set skills" for c
  proof -
    have "?bearing c \<noteq> []"
      using that by (auto simp: filter_empty_conv)
    then show ?thesis by simp
  qed
  have sorted: "sorted_wrt (level_then_name localeCompare)
      (sort_by (compare_skills localeCompare) xs)" for xs
    using sorted_sort_by [OF consistent_compare_skills [OF assms(1)], of xs]
    by (simp add: compare_skills_order)
  from view absent present sorted show ?thesis
    by (intro exI [of _ ?grouped]) (simp add: mset_sort_by)
qed

theorem skillsByCategory_grouped_sorted_witness:
  "consistent_comparator localeCompare_ascii \<and>
   list_all (\<lambda>s. s_category s \<notin> set object_prototype_keys) skills_sample \<and>
   group_of (skillsByCategory localeCompare_ascii skills_sample) ''Frontend''
     = Some [skill_sample 3 ''TypeScript'' ''Frontend'' 5, skill_sample 4 ''CSS'' ''Frontend'' 4,
             skill_sample 1 ''Svelte'' ''Frontend'' 4] \<and>
   group_of (skillsByCategory localeCompare_ascii skills_sample) ''Backend''
     = Some [skill_sample 2 ''Rust'' ''Backend'' 5] \<and>
   group_of (skillsByCategory localeCompare_ascii skills_sample) ''Design'' = None"
proof -
  have labels: "\<forall>s \<in> set skills_sample. s_category s \<notin> set object_prototype_keys"
    by (simp add: skills_sample_def skill_sample_def object_prototype_keys_def)
  have groups:
    "group_of (skillsByCategory localeCompare_ascii skills_sample) ''Frontend''
       = Some [skill_sample 3 ''TypeScript'' ''Frontend'' 5,
               skill_sample 4 ''CSS'' ''Frontend'' 4, skill_sample 1 ''Svelte'' ''Frontend'' 4]"
    "group_of (skillsByCategory localeCompare_ascii skills_sample) ''Backend''
       = Some [skill_sample 2 ''Rust'' ''Backend'' 5]"
    "group_of (skillsByCategory localeCompare_ascii skills_sample) ''Design'' = None"
    by (simp_all add: group_of_def skillsByCategory_def skills_sample_def skill_sample_def
        Let_def object_prototype_keys_def compare_skills_def localeCompare_ascii_def
        fold_case_def)
  show ?thesis
    using skillsByCategory_grouped_sorted [OF consistent_localeCompare_ascii labels]
      consistent_localeCompare_ascii labels groups
    by (simp add: list_all_iff)
qed

end
